theory Spec2Isabelle
  imports Complex_Main "HOL-Library.Word" "HOL-Library.Char_ord"
begin

unbundle bit_operations_syntax

section \<open>The NTP client \<open>ntp_sync\<close> (v0.3): data model\<close>

text \<open>
  The development follows \<open>ntp_sync.c\<close>, version 0.3 (the source with
  \<open>validate_hostname\<close>, \<open>validate_ntp_response\<close>, \<open>query_ntp_server\<close>,
  \<open>sync_with_server_multi_sample\<close> and \<open>main\<close>), in its POSIX build (the \<open>#else\<close>
  branches of \<open>#ifdef _WIN32\<close>).

  Conventions of the embedding:
  \<^item> \<open>uint8_t\<close> is \<open>8 word\<close>, \<open>uint32_t\<close> is \<open>32 word\<close>, \<open>unsigned long long\<close> is
    \<open>64 word\<close>; \<open>int\<close> holding values computed from 32-bit fields is \<open>32 word\<close> read
    with \<open>sint\<close>; loop counters and the sample count are \<open>int\<close>.
  \<^item> \<open>double\<close> is \<open>real\<close>: the arithmetic of the source is kept operation by
    operation, but IEEE rounding is not modelled.
  \<^item> C strings are \<open>string\<close> (without NUL characters); a \<open>const char*\<close> that may be
    \<open>NULL\<close> is a \<open>string option\<close>.
  \<^item> Calls into the operating system and the C library are answered by a
    \<open>platform\<close> record; the network and clock calls, and the lines printed by
    \<open>main\<close> and \<open>sync_with_server_multi_sample\<close>, are appended to a trace of events.
\<close>

type_synonym u8 = "8 word"
type_synonym u32 = "32 word"
type_synonym u64 = "64 word"

definition NTP_PACKET_SIZE :: int where "NTP_PACKET_SIZE = 48"
definition NTP_TIMESTAMP_DELTA :: u64 where "NTP_TIMESTAMP_DELTA = 2208988800"
definition MAX_HOSTNAME_LEN :: nat where "MAX_HOSTNAME_LEN = 255"
definition MAX_SAMPLES :: int where "MAX_SAMPLES = 5"
definition MIN_VALID_STRATUM :: u8 where "MIN_VALID_STRATUM = 1"
definition MAX_VALID_STRATUM :: u8 where "MAX_VALID_STRATUM = 15"

definition INTERNAL_NTP_SERVERS :: "string list" where
  "INTERNAL_NTP_SERVERS = [''ntp.aliyun.com'', ''time.cloudflare.com'', ''pool.ntp.org'']"

datatype ntp_error_t =
    NTP_SUCCESS
  | NTP_ERR_DNS_FAILED
  | NTP_ERR_SOCKET_CREATE
  | NTP_ERR_SEND_FAILED
  | NTP_ERR_RECV_TIMEOUT
  | NTP_ERR_INVALID_RESPONSE
  | NTP_ERR_INVALID_STRATUM
  | NTP_ERR_SET_TIME_FAILED
  | NTP_ERR_PERMISSION_DENIED
  | NTP_ERR_INVALID_HOSTNAME

text \<open>
  The packed 48-byte packet. A 32-bit field holds the value the host reads from the
  four bytes in memory, so a field received from the wire is passed through \<open>ntohl\<close>
  before use, as in the source.
\<close>

record ntp_packet =
  li_vn_mode :: u8
  stratum :: u8
  poll :: u8
  precision :: u8
  root_delay :: u32
  root_dispersion :: u32
  reference_id :: u32
  ref_ts_sec :: u32
  ref_ts_frac :: u32
  orig_ts_sec :: u32
  orig_ts_frac :: u32
  recv_ts_sec :: u32
  recv_ts_frac :: u32
  trans_ts_sec :: u32
  trans_ts_frac :: u32

record ntp_result =
  corrected_time :: real
  delay :: real
  error :: ntp_error_t

text \<open>\<open>ntp_packet packet = {0}\<close>\<close>

definition zero_packet :: ntp_packet where
  "zero_packet = \<lparr>li_vn_mode = 0, stratum = 0, poll = 0, precision = 0,
     root_delay = 0, root_dispersion = 0, reference_id = 0,
     ref_ts_sec = 0, ref_ts_frac = 0, orig_ts_sec = 0, orig_ts_frac = 0,
     recv_ts_sec = 0, recv_ts_frac = 0, trans_ts_sec = 0, trans_ts_frac = 0\<rparr>"

subsection \<open>C library: byte order and conversions\<close>

text \<open>
  \<open>ntohl\<close> and \<open>htonl\<close> on a little-endian host: both reverse the four bytes
  (on a big-endian host both are the identity).
\<close>

definition ntohl :: "u32 \<Rightarrow> u32" where
  "ntohl x = drop_bit 24 (x AND 0xFF000000) OR drop_bit 8 (x AND 0x00FF0000)
           OR push_bit 8 (x AND 0x0000FF00) OR push_bit 24 (x AND 0x000000FF)"

definition htonl :: "u32 \<Rightarrow> u32" where
  "htonl x = ntohl x"

text \<open>
  Conversion of a \<open>double\<close> to an integer type truncates towards zero. C leaves the
  conversion undefined when the truncated value does not fit the target type; the
  model then takes the value modulo \<open>2 ^ 32\<close>, and the theorems that depend on the
  converted value assume it fits.
\<close>

definition c_trunc :: "real \<Rightarrow> int" where
  "c_trunc x = (if 0 \<le> x then \<lfloor>x\<rfloor> else \<lceil>x\<rceil>)"

definition u32_of_double :: "real \<Rightarrow> u32" where
  "u32_of_double x = word_of_int (c_trunc x)"

definition double_of_u32 :: "u32 \<Rightarrow> real" where
  "double_of_u32 x = real (unat x)"

definition double_of_u64 :: "u64 \<Rightarrow> real" where
  "double_of_u64 x = real (unat x)"

text \<open>
  \<open>abs\<close> on \<open>int\<close>. \<open>abs(INT_MIN)\<close> is undefined in C; the model negates with
  wrap-around, so \<open>c_abs\<close> of \<open>INT_MIN\<close> is \<open>INT_MIN\<close>.
\<close>

definition c_abs :: "u32 \<Rightarrow> u32" where
  "c_abs x = (if sint x < 0 then - x else x)"

section \<open>Hostname validation\<close>

text \<open>The test of one character in the loop of \<open>validate_hostname\<close>.\<close>

definition hostname_char_ok :: "char \<Rightarrow> bool" where
  "hostname_char_ok c \<longleftrightarrow>
     (CHR ''a'' \<le> c \<and> c \<le> CHR ''z'') \<or>
     (CHR ''A'' \<le> c \<and> c \<le> CHR ''Z'') \<or>
     (CHR ''0'' \<le> c \<and> c \<le> CHR ''9'') \<or>
     c = CHR ''.'' \<or> c = CHR ''-''"

text \<open>The \<open>for\<close> loop over the characters: the first bad character returns 0.\<close>

fun hostname_chars_loop :: "string \<Rightarrow> bool" where
  "hostname_chars_loop [] = True"
| "hostname_chars_loop (c # p) = (if \<not> hostname_char_ok c then False else hostname_chars_loop p)"

definition validate_hostname :: "string option \<Rightarrow> bool" where
  "validate_hostname hostname =
     (case hostname of
        None \<Rightarrow> False
      | Some h \<Rightarrow>
          if length h = 0 \<or> length h > MAX_HOSTNAME_LEN then False
          else hostname_chars_loop h)"

section \<open>Response validation\<close>

text \<open>
  \<open>validate_ntp_response\<close> returns 1 (\<open>True\<close>) or 0 (\<open>False\<close>); the debug lines it
  writes to \<open>stderr\<close> are not part of the model. The difference of the two second
  values is computed on \<open>int\<close>: the casts reinterpret the 32 bits as two's
  complement, and the subtraction is modelled with wrap-around (C leaves a signed
  overflow undefined).
\<close>

definition validate_ntp_response :: "ntp_packet \<Rightarrow> u32 \<Rightarrow> u32 \<Rightarrow> bool" where
  "validate_ntp_response packet sent_sec sent_frac =
     (let mode = li_vn_mode packet AND 0x07 in
      if mode \<noteq> 4 \<and> mode \<noteq> 5 then False
      else if stratum packet = 0 then False
      else if stratum packet > MAX_VALID_STRATUM then False
      else
        let resp_orig_sec = ntohl (orig_ts_sec packet);
            resp_orig_frac = ntohl (orig_ts_frac packet);
            sec_diff = c_abs (resp_orig_sec - sent_sec)
        in if sint sec_diff > 1 then False
           else if ntohl (trans_ts_sec packet) = 0 then False
           else True)"

section \<open>The environment: platform answers and the trace of effects\<close>

text \<open>
  Lines printed by \<open>main\<close> and \<open>sync_with_server_multi_sample\<close>, one constructor per
  \<open>printf\<close>/\<open>fprintf\<close>.
\<close>

datatype msg =
    MsgUsage string  \<comment> \<open>\<open>print_usage(argv[0])\<close>\<close>
  | MsgBadSampleCount  \<comment> \<open>sample count outside 1..\<open>MAX_SAMPLES\<close>\<close>
  | MsgMissingSampleCount  \<comment> \<open>\<open>-s\<close> without a value\<close>
  | MsgInvalidHostname string  \<comment> \<open>invalid host name (\<open>stderr\<close>)\<close>
  | MsgStage1  \<comment> \<open>banner of stage 1\<close>
  | MsgStage2  \<comment> \<open>banner of stage 2\<close>
  | MsgSwitching  \<comment> \<open>about to switch to the built-in servers\<close>
  | MsgSyncStart string int  \<comment> \<open>host and number of samples\<close>
  | MsgSampleOk int int real  \<comment> \<open>sample \<open>i+1\<close> of \<open>samples\<close>, delay in ms\<close>
  | MsgSampleFail int int ntp_error_t  \<comment> \<open>sample \<open>i+1\<close> of \<open>samples\<close>, \<open>ntp_error_strings[error]\<close>\<close>
  | MsgAllSamplesFailed  \<comment> \<open>every sample failed\<close>
  | MsgAverage real int int  \<comment> \<open>average delay in ms, success rate \<open>success_count/samples\<close>\<close>
  | MsgTimeUpdated int  \<comment> \<open>system time updated, \<open>ctime\<close> of the whole seconds\<close>
  | MsgError ntp_error_t  \<comment> \<open>\<open>ntp_error_strings[set_error]\<close> on \<open>stderr\<close>\<close>
  | MsgHintSudo  \<comment> \<open>hint: run the program with \<open>sudo\<close>\<close>
  | MsgAllServersFailed  \<comment> \<open>fatal: every NTP server failed, with the checklist\<close>

text \<open>
  The events of a run, in the order they happen: the network calls of an exchange,
  the calls of the clock setter, and the lines printed. (\<open>setsockopt\<close>, whose result
  the source ignores, and \<open>freeaddrinfo\<close> are left out.)
\<close>

datatype event =
    Getaddrinfo string
  | Socket
  | Sendto ntp_packet
  | Recv
  | Close
  | Getuid
  | Settimeofday int int
  | Print msg

text \<open>What the operating system answers during one call of \<open>query_ntp_server\<close>.\<close>

record exchange_io =
  getaddrinfo_ok :: bool  \<comment> \<open>\<open>getaddrinfo(...) == 0\<close>\<close>
  socket_ok :: bool  \<comment> \<open>the socket returned is valid\<close>
  time_before_send :: real  \<comment> \<open>\<open>get_local_time_double()\<close> read as \<open>t1\<close>\<close>
  sendto_ok :: bool  \<comment> \<open>\<open>sendto(...) >= 0\<close>\<close>
  recv_bytes :: int  \<comment> \<open>return value of \<open>recv\<close>\<close>
  recv_packet :: ntp_packet  \<comment> \<open>the buffer after \<open>recv\<close>\<close>
  time_after_recv :: real  \<comment> \<open>\<open>get_local_time_double()\<close> read as \<open>t4\<close>\<close>

text \<open>
  The platform: the answers to the \<open>k\<close>-th exchange of the run (with the host it is
  addressed to), the user id, the return code of the \<open>k\<close>-th \<open>settimeofday\<close>, and the
  C library's \<open>atoi\<close>.
\<close>

record platform =
  exchange :: "string \<Rightarrow> nat \<Rightarrow> exchange_io"
  getuid :: nat
  settimeofday :: "nat \<Rightarrow> int \<Rightarrow> int \<Rightarrow> int"
  atoi :: "string \<Rightarrow> int"

record world =
  trace :: "event list"
  exchanges :: nat  \<comment> \<open>number of exchanges started so far\<close>
  clock_calls :: nat  \<comment> \<open>number of \<open>settimeofday\<close> calls so far\<close>

definition emit :: "event \<Rightarrow> world \<Rightarrow> world" where
  "emit e w = w\<lparr>trace := trace w @ [e]\<rparr>"

definition init_world :: world where
  "init_world = \<lparr>trace = [], exchanges = 0, clock_calls = 0\<rparr>"

section \<open>Setting the system time\<close>

text \<open>\<open>set_system_time_platform\<close>, POSIX branch.\<close>

definition set_system_time_platform :: "platform \<Rightarrow> real \<Rightarrow> world \<Rightarrow> ntp_error_t \<times> world" where
  "set_system_time_platform pf new_time_seconds w =
     (let sec = c_trunc new_time_seconds;
          frac = new_time_seconds - real_of_int sec;
          w = emit Getuid w
      in if getuid pf \<noteq> 0 then (NTP_ERR_PERMISSION_DENIED, w)
         else
           let tv_sec = sec;
               tv_usec = c_trunc (frac * 1000000);
               rc = settimeofday pf (clock_calls w) tv_sec tv_usec;
               w = (emit (Settimeofday tv_sec tv_usec) w)\<lparr>clock_calls := Suc (clock_calls w)\<rparr>
           in if rc < 0 then (NTP_ERR_SET_TIME_FAILED, w)
              else (NTP_SUCCESS, w))"

section \<open>One exchange: \<open>query_ntp_server\<close>\<close>

text \<open>
  The timestamp conversions written inline in \<open>query_ntp_server\<close>. Encoding
  (\<open>t1_sec\<close>, \<open>t1_frac\<close>): the sum \<open>(uint32_t)t1 + NTP_TIMESTAMP_DELTA\<close> is computed on
  \<open>unsigned long long\<close> and stored into a \<open>uint32_t\<close>.
\<close>

definition encode_timestamp :: "real \<Rightarrow> u32 \<times> u32" where
  "encode_timestamp t1 =
     (let t1_sec = (ucast ((ucast (u32_of_double t1) :: u64) + NTP_TIMESTAMP_DELTA) :: u32);
          t1_frac = u32_of_double ((t1 - double_of_u32 (u32_of_double t1)) * 4294967296)
      in (t1_sec, t1_frac))"

text \<open>
  Decoding (\<open>t2\<close>, \<open>t3\<close>): the difference \<open>t2_sec - NTP_TIMESTAMP_DELTA\<close> is computed on
  \<open>unsigned long long\<close>, where it wraps modulo \<open>2 ^ 64\<close>.
\<close>

definition decode_timestamp :: "u32 \<Rightarrow> u32 \<Rightarrow> real" where
  "decode_timestamp t_sec t_fra =
     double_of_u64 ((ucast t_sec :: u64) - NTP_TIMESTAMP_DELTA) + double_of_u32 t_fra / 4294967296"

text \<open>The two assignments \<open>result.delay = ...\<close> and \<open>result.corrected_time = ...\<close>.\<close>

definition compute_offset :: "real \<Rightarrow> real \<Rightarrow> real \<Rightarrow> real \<Rightarrow> ntp_result \<Rightarrow> ntp_result" where
  "compute_offset t1 t2 t3 t4 result =
     (let result = result\<lparr>delay := (t4 - t1) - (t3 - t2)\<rparr>;
          result = result\<lparr>corrected_time := t3 + (delay result / 2)\<rparr>
      in result)"

text \<open>
  \<open>query_ntp_server\<close> returns its result and the calls it made. The label
  \<open>cleanup\<close> closes the socket when one was opened; the failure of \<open>getaddrinfo\<close>
  returns before any socket exists.
\<close>

definition query_ntp_server :: "string \<Rightarrow> exchange_io \<Rightarrow> ntp_result \<times> event list" where
  "query_ntp_server hostname io =
     (let result = \<lparr>corrected_time = 0, delay = 0, error = NTP_ERR_DNS_FAILED\<rparr>;
          packet = zero_packet;
          evs = [Getaddrinfo hostname]
      in if \<not> getaddrinfo_ok io then (result, evs)
         else
           let evs = evs @ [Socket]
           in if \<not> socket_ok io then (result\<lparr>error := NTP_ERR_SOCKET_CREATE\<rparr>, evs)
              else
                let packet = packet\<lparr>li_vn_mode := 0x1B\<rparr>;
                    t1 = time_before_send io;
                    (t1_sec, t1_frac) = encode_timestamp t1;
                    packet = packet\<lparr>trans_ts_sec := htonl t1_sec\<rparr>;
                    packet = packet\<lparr>trans_ts_frac := htonl t1_frac\<rparr>;
                    evs = evs @ [Sendto packet]
                in if \<not> sendto_ok io then (result\<lparr>error := NTP_ERR_SEND_FAILED\<rparr>, evs @ [Close])
                   else
                     let bytes = recv_bytes io;
                         packet = recv_packet io;
                         evs = evs @ [Recv];
                         t4 = time_after_recv io
                     in if bytes < NTP_PACKET_SIZE
                        then (result\<lparr>error := NTP_ERR_RECV_TIMEOUT\<rparr>, evs @ [Close])
                        else if \<not> validate_ntp_response packet t1_sec t1_frac
                        then (result\<lparr>error := NTP_ERR_INVALID_RESPONSE\<rparr>, evs @ [Close])
                        else
                          let t2_sec = ntohl (recv_ts_sec packet);
                              t2_fra = ntohl (recv_ts_frac packet);
                              t3_sec = ntohl (trans_ts_sec packet);
                              t3_fra = ntohl (trans_ts_frac packet);
                              t2 = decode_timestamp t2_sec t2_fra;
                              t3 = decode_timestamp t3_sec t3_fra;
                              result = compute_offset t1 t2 t3 t4 result;
                              result = result\<lparr>error := NTP_SUCCESS\<rparr>
                          in (result, evs @ [Close]))"

text \<open>
  A call of \<open>query_ntp_server\<close> in the running program: the platform answers the
  next exchange, and the calls made are appended to the trace.
\<close>

definition call_query_ntp_server :: "platform \<Rightarrow> string \<Rightarrow> world \<Rightarrow> ntp_result \<times> world" where
  "call_query_ntp_server pf hostname w =
     (let (r, evs) = query_ntp_server hostname (exchange pf hostname (exchanges w))
      in (r, w\<lparr>trace := trace w @ evs, exchanges := Suc (exchanges w)\<rparr>))"

section \<open>Several samples: \<open>sync_with_server_multi_sample\<close>\<close>

text \<open>
  The local variables of \<open>sync_with_server_multi_sample\<close> that the loop updates. The
  array \<open>results\<close> has \<open>MAX_SAMPLES\<close> elements; the loop writes element \<open>i\<close> and
  reads it back. An index outside the array is undefined in C: in the model the
  write is lost and the read (\<open>results ! i\<close>) is unspecified, so nothing is known
  about a run with more than \<open>MAX_SAMPLES\<close> samples.
\<close>

record sample_state =
  results :: "ntp_result list"
  success_count :: int
  sum_time :: real
  sum_delay :: real

text \<open>
  The array is not initialised in the source; no element is read before it is
  written, so the initial content is a placeholder.
\<close>

definition init_sample_state :: sample_state where
  "init_sample_state =
     \<lparr>results = replicate (nat MAX_SAMPLES) \<lparr>corrected_time = 0, delay = 0, error = NTP_SUCCESS\<rparr>,
      success_count = 0, sum_time = 0, sum_delay = 0\<rparr>"

text \<open>The three sums of the branch \<open>results[i].error == NTP_SUCCESS\<close>.\<close>

definition add_sample :: "ntp_result \<Rightarrow> sample_state \<Rightarrow> sample_state" where
  "add_sample r st =
     st\<lparr>sum_time := sum_time st + corrected_time r,
        sum_delay := sum_delay st + delay r,
        success_count := success_count st + 1\<rparr>"

text \<open>
  The body of the loop once \<open>query_ntp_server\<close> has returned \<open>r\<close>: the store into
  \<open>results[i]\<close>, the test of \<open>results[i].error\<close>, the sums and the line printed.
\<close>

definition record_sample :: "int \<Rightarrow> int \<Rightarrow> ntp_result \<Rightarrow> sample_state \<Rightarrow> sample_state \<times> msg" where
  "record_sample samples i r st =
     (let st = st\<lparr>results := (results st)[nat i := r]\<rparr>
      in if error (results st ! nat i) = NTP_SUCCESS
         then (add_sample (results st ! nat i) st,
               MsgSampleOk (i + 1) samples (delay (results st ! nat i) * 1000))
         else (st, MsgSampleFail (i + 1) samples (error (results st ! nat i))))"

function sample_loop ::
  "platform \<Rightarrow> string \<Rightarrow> int \<Rightarrow> int \<Rightarrow> sample_state \<Rightarrow> world \<Rightarrow> sample_state \<times> world" where
  "sample_loop pf hostname samples i st w =
     (if i < samples then
        let (r, w) = call_query_ntp_server pf hostname w;
            (st, line) = record_sample samples i r st
        in sample_loop pf hostname samples (i + 1) st (emit (Print line) w)
      else (st, w))"
  by pat_completeness auto
termination
  by (relation "measure (\<lambda>(pf, hostname, samples, i, st, w). nat (samples - i))") auto

declare sample_loop.simps [simp del]

text \<open>The code after the loop: no success returns \<open>final\<close> unchanged, else the averages.\<close>

definition finish_samples :: "int \<Rightarrow> sample_state \<Rightarrow> world \<Rightarrow> ntp_result \<times> world" where
  "finish_samples samples st w =
     (let final = \<lparr>corrected_time = 0, delay = 0, error = NTP_ERR_RECV_TIMEOUT\<rparr>
      in if success_count st = 0 then (final, emit (Print MsgAllSamplesFailed) w)
         else
           let final = final\<lparr>corrected_time := sum_time st / real_of_int (success_count st)\<rparr>;
               final = final\<lparr>delay := sum_delay st / real_of_int (success_count st)\<rparr>;
               final = final\<lparr>error := NTP_SUCCESS\<rparr>
           in (final, emit (Print (MsgAverage (delay final * 1000) (success_count st) samples)) w))"

definition sync_with_server_multi_sample ::
  "platform \<Rightarrow> string \<Rightarrow> int \<Rightarrow> world \<Rightarrow> ntp_result \<times> world" where
  "sync_with_server_multi_sample pf hostname samples w =
     (let w = emit (Print (MsgSyncStart hostname samples)) w;
          (st, w) = sample_loop pf hostname samples 0 init_sample_state w
      in finish_samples samples st w)"

section \<open>The program: \<open>main\<close>\<close>

text \<open>
  The argument loop of \<open>main\<close>, over \<open>argv[1..]\<close>: it ends the program (\<open>Exit\<close>) or
  leaves \<open>samples\<close> and \<open>custom_server\<close> (\<open>Proceed\<close>).
\<close>

datatype parsed = Exit int | Proceed int "string option"

fun main_args ::
  "platform \<Rightarrow> string \<Rightarrow> string list \<Rightarrow> int \<Rightarrow> string option \<Rightarrow> world \<Rightarrow> parsed \<times> world" where
  "main_args pf prog [] samples custom_server w = (Proceed samples custom_server, w)"
| "main_args pf prog (a # rest) samples custom_server w =
     (if a = ''-h'' \<or> a = ''--help'' then (Exit 0, emit (Print (MsgUsage prog)) w)
      else if a = ''-s'' then
        (case rest of
           [] \<Rightarrow> (Exit 1, emit (Print MsgMissingSampleCount) w)
         | n # rest' \<Rightarrow>
             let samples = atoi pf n
             in if samples < 1 \<or> samples > MAX_SAMPLES
                then (Exit 1, emit (Print MsgBadSampleCount) w)
                else main_args pf prog rest' samples custom_server w)
      else if (case a of [] \<Rightarrow> True | c # _ \<Rightarrow> c \<noteq> CHR ''-'')
      then main_args pf prog rest samples (Some a) w
      else main_args pf prog rest samples custom_server w)"

text \<open>\<open>init_networking\<close> and \<open>cleanup_networking\<close> do nothing on POSIX.\<close>

definition init_networking :: bool where
  "init_networking = True"

text \<open>Stage 1, after the host name has passed \<open>validate_hostname\<close>.\<close>

definition stage1 :: "platform \<Rightarrow> string \<Rightarrow> int \<Rightarrow> world \<Rightarrow> bool \<times> world" where
  "stage1 pf custom_server samples w =
     (let w = emit (Print MsgStage1) w;
          (result, w) = sync_with_server_multi_sample pf custom_server samples w
      in if error result = NTP_SUCCESS then
           let (set_error, w) = set_system_time_platform pf (corrected_time result) w
           in if set_error = NTP_SUCCESS
              then (True, emit (Print (MsgTimeUpdated (c_trunc (corrected_time result)))) w)
              else (False, emit (Print MsgHintSudo) (emit (Print (MsgError set_error)) w))
         else (False, emit (Print MsgSwitching) w))"

text \<open>
  The loop of stage 2 over \<open>INTERNAL_NTP_SERVERS\<close>, as a recursion over the servers
  still to try; \<open>break\<close> after the first server whose time was applied.
\<close>

fun stage2_loop :: "platform \<Rightarrow> string list \<Rightarrow> int \<Rightarrow> world \<Rightarrow> bool \<times> world" where
  "stage2_loop pf [] samples w = (False, w)"
| "stage2_loop pf (server # servers) samples w =
     (let (result, w) = sync_with_server_multi_sample pf server samples w
      in if error result = NTP_SUCCESS then
           let (set_error, w) = set_system_time_platform pf (corrected_time result) w
           in if set_error = NTP_SUCCESS
              then (True, emit (Print (MsgTimeUpdated (c_trunc (corrected_time result)))) w)
              else stage2_loop pf servers samples (emit (Print (MsgError set_error)) w)
         else stage2_loop pf servers samples w)"

text \<open>
  The end of \<open>main\<close>: stage 2 when \<open>success\<close> is still 0, the fatal message, and the
  exit code.
\<close>

definition main_stage2 :: "platform \<Rightarrow> int \<Rightarrow> bool \<Rightarrow> world \<Rightarrow> int \<times> world" where
  "main_stage2 pf samples success w =
     (let (success, w) =
            (if \<not> success
             then stage2_loop pf INTERNAL_NTP_SERVERS samples (emit (Print MsgStage2) w)
             else (success, w));
          w = (if \<not> success then emit (Print MsgAllServersFailed) w else w)
      in (if success then 0 else 1, w))"

text \<open>
  \<open>main\<close> from \<open>init_networking\<close> on, given the \<open>samples\<close> and \<open>custom_server\<close> left by
  the argument loop. The result is the exit code.
\<close>

definition main_sync :: "platform \<Rightarrow> int \<Rightarrow> string option \<Rightarrow> world \<Rightarrow> int \<times> world" where
  "main_sync pf samples custom_server w =
     (if \<not> init_networking then (1, w)
      else
        case custom_server of
          None \<Rightarrow> main_stage2 pf samples False w
        | Some h \<Rightarrow>
            if \<not> validate_hostname custom_server
            then (1, emit (Print (MsgInvalidHostname h)) w)
            else
              let (success, w) = stage1 pf h samples w
              in main_stage2 pf samples success w)"

definition main :: "platform \<Rightarrow> string list \<Rightarrow> world \<Rightarrow> int \<times> world" where
  "main pf argv w =
     (case main_args pf (case argv of [] \<Rightarrow> [] | prog # _ \<Rightarrow> prog) (tl argv) 1 None w of
        (Exit code, w) \<Rightarrow> (code, w)
      | (Proceed samples custom_server, w) \<Rightarrow> main_sync pf samples custom_server w)"

section \<open>Definitions used to state the properties\<close>

text \<open>
  The character set of a host name in the specification's words: letters, digits,
  \<open>.\<close> and \<open>-\<close>, written out.
\<close>

definition spec_hostname_charset :: "char set" where
  "spec_hostname_charset =
     set (''abcdefghijklmnopqrstuvwxyz'' @ ''ABCDEFGHIJKLMNOPQRSTUVWXYZ'' @ ''0123456789'' @ ''.-'')"

text \<open>
  Readings of a trace: the events of the clock setter (every call of
  \<open>set_system_time_platform\<close> starts with \<open>getuid\<close>), and the hosts handed to
  \<open>getaddrinfo\<close>, in order.
\<close>

definition clock_event :: "event \<Rightarrow> bool" where
  "clock_event e = (case e of Getuid \<Rightarrow> True | Settimeofday _ _ \<Rightarrow> True | _ \<Rightarrow> False)"

fun resolved_hosts :: "event list \<Rightarrow> string list" where
  "resolved_hosts [] = []"
| "resolved_hosts (Getaddrinfo h # es) = h # resolved_hosts es"
| "resolved_hosts (_ # es) = resolved_hosts es"

text \<open>
  The results of the \<open>n\<close> exchanges with \<open>hostname\<close> that start at exchange \<open>k\<close> of the
  run, and the successful ones among a list of results.
\<close>

definition sample_results :: "platform \<Rightarrow> string \<Rightarrow> nat \<Rightarrow> nat \<Rightarrow> ntp_result list" where
  "sample_results pf hostname k n =
     map (\<lambda>j. fst (query_ntp_server hostname (exchange pf hostname j))) [k ..< k + n]"

definition successful :: "ntp_result list \<Rightarrow> ntp_result list" where
  "successful rs = filter (\<lambda>r. error r = NTP_SUCCESS) rs"

text \<open>The servers of a run: the user's host, if any, then the built-in pool.\<close>

definition configured_servers :: "string option \<Rightarrow> string list" where
  "configured_servers custom_server =
     (case custom_server of None \<Rightarrow> [] | Some h \<Rightarrow> [h]) @ INTERNAL_NTP_SERVERS"

subsection \<open>Example environments\<close>

text \<open>An exchange whose name resolution fails.\<close>

definition dns_down_io :: exchange_io where
  "dns_down_io = \<lparr>getaddrinfo_ok = False, socket_ok = False, time_before_send = 0,
     sendto_ok = False, recv_bytes = 0, recv_packet = zero_packet, time_after_recv = 0\<rparr>"

text \<open>
  An exchange answered by a stratum-2 server in mode 4 that echoes the second sent
  and stamps receive and transmit at Unix time 1001; the request leaves at \<open>t1\<close> and
  the answer arrives at \<open>t4\<close>.
\<close>

definition good_io :: "real \<Rightarrow> real \<Rightarrow> exchange_io" where
  "good_io t1 t4 = \<lparr>getaddrinfo_ok = True, socket_ok = True, time_before_send = t1,
     sendto_ok = True, recv_bytes = 48,
     recv_packet = zero_packet\<lparr>li_vn_mode := 0x24, stratum := 2,
        orig_ts_sec := htonl (fst (encode_timestamp t1)),
        recv_ts_sec := htonl 2208989801, trans_ts_sec := htonl 2208989801\<rparr>,
     time_after_recv = t4\<rparr>"

text \<open>The same answer with stratum 16.\<close>

definition stratum16_io :: exchange_io where
  "stratum16_io =
     (good_io 1000 1001)\<lparr>recv_packet := (recv_packet (good_io 1000 1001))\<lparr>stratum := 16\<rparr>\<rparr>"

text \<open>Exchange 1 of the run fails; the others are answered after \<open>1 + 2 * k\<close> seconds.\<close>

definition flaky_io :: "nat \<Rightarrow> exchange_io" where
  "flaky_io k = (if k = 1 then dns_down_io else good_io 1000 (1001 + 2 * real k))"

text \<open>A stratum-1 answer in mode 4 whose origin second is 0.\<close>

definition era_wrap_packet :: ntp_packet where
  "era_wrap_packet = zero_packet\<lparr>li_vn_mode := 0x24, stratum := 1,
      orig_ts_sec := htonl 0, trans_ts_sec := htonl 1\<rparr>"

text \<open>
  Platforms: no name resolves (run as root); every exchange is answered, run by user
  1000; the flaky network, run as root.
\<close>

definition pf_unreachable :: platform where
  "pf_unreachable = \<lparr>exchange = (\<lambda>h k. dns_down_io), getuid = 0,
     settimeofday = (\<lambda>k sec usec. 0), atoi = (\<lambda>s. 0)\<rparr>"

definition pf_unprivileged :: platform where
  "pf_unprivileged = \<lparr>exchange = (\<lambda>h k. good_io 1000 1001), getuid = 1000,
     settimeofday = (\<lambda>k sec usec. 0), atoi = (\<lambda>s. 0)\<rparr>"

definition pf_flaky :: platform where
  "pf_flaky = \<lparr>exchange = (\<lambda>h k. flaky_io k), getuid = 0,
     settimeofday = (\<lambda>k sec usec. 0), atoi = (\<lambda>s. 0)\<rparr>"

section \<open>Byte order and the timestamp codec\<close>

lemma byte_masks:
  "(0xFF :: u32) = mask 8" "(0xFF00 :: u32) = push_bit 8 (mask 8)"
  "(0xFF0000 :: u32) = push_bit 16 (mask 8)" "(0xFF000000 :: u32) = push_bit 24 (mask 8)"
  by (simp_all add: mask_eq_exp_minus_1)

lemma ntohl_ntohl: "ntohl (ntohl x) = x"
proof (rule bit_word_eqI)
  fix n :: nat
  assume "n < LENGTH(32)"
  then consider "n < 8" | "8 \<le> n" "n < 16" | "16 \<le> n" "n < 24" | "24 \<le> n" "n < 32"
    by fastforce
  then show "bit (ntohl (ntohl x)) n = bit x n"
  proof cases
    case 1
    then show ?thesis unfolding ntohl_def byte_masks by (auto simp add: bit_simps)
  next
    case 2
    then show ?thesis unfolding ntohl_def byte_masks by (auto simp add: bit_simps)
  next
    case 3
    then show ?thesis unfolding ntohl_def byte_masks by (auto simp add: bit_simps)
  next
    case 4
    then show ?thesis unfolding ntohl_def byte_masks by (auto simp add: bit_simps)
  qed
qed

lemma ntohl_htonl: "ntohl (htonl x) = x"
  by (simp add: htonl_def ntohl_ntohl)

lemma ntohl_example: "ntohl 0x12345678 = 0x78563412"
  by (simp add: ntohl_def)

text \<open>
  Network byte order: the bytes of \<open>htonl x\<close> at increasing addresses of the
  little-endian host are the bytes of \<open>x\<close> from the most significant one down.
\<close>

lemma htonl_big_endian:
  "(ucast (htonl x) :: u8) = ucast (drop_bit 24 x)"
  "(ucast (drop_bit 8 (htonl x)) :: u8) = ucast (drop_bit 16 x)"
  "(ucast (drop_bit 16 (htonl x)) :: u8) = ucast (drop_bit 8 x)"
  "(ucast (drop_bit 24 (htonl x)) :: u8) = ucast x"
  unfolding htonl_def ntohl_def byte_masks
  by (rule bit_word_eqI; auto simp add: bit_simps)+

lemma c_trunc_nonneg: "0 \<le> x \<Longrightarrow> c_trunc x = \<lfloor>x\<rfloor>"
  by (simp add: c_trunc_def)

lemma unat_u32_of_double:
  assumes "0 \<le> x" "x < 4294967296"
  shows "unat (u32_of_double x) = nat \<lfloor>x\<rfloor>"
proof -
  have "0 \<le> \<lfloor>x\<rfloor>"
    using assms(1) by simp
  moreover have "\<lfloor>x\<rfloor> < 4294967296"
    using assms(2) by (simp add: floor_less_iff)
  ultimately have "take_bit 32 \<lfloor>x\<rfloor> = \<lfloor>x\<rfloor>"
    by (simp add: take_bit_int_eq_self)
  then show ?thesis
    using assms(1) by (simp add: u32_of_double_def c_trunc_nonneg unat_eq_nat_uint uint_word_of_int_eq)
qed

lemma unat_ucast_u32_u64: "unat (ucast (x :: u32) :: u64) = unat x"
proof -
  have "unat x < 2 ^ 32"
    using unsigned_less [of x] by simp
  then have "unat x < 2 ^ 64"
    by simp
  then show ?thesis
    by (simp add: unsigned_ucast_eq take_bit_nat_eq_self)
qed

lemma unat_ucast_u64_u32: "unat (y :: u64) < 2 ^ 32 \<Longrightarrow> unat (ucast y :: u32) = unat y"
  by (simp add: unsigned_ucast_eq take_bit_nat_eq_self)

text \<open>The seconds field: no wrap-around before 7 February 2036 (Unix time 2085978496).\<close>

lemma encode_timestamp_sec:
  assumes "0 \<le> t" "t < 2085978496"
  shows "unat (fst (encode_timestamp t)) = nat \<lfloor>t\<rfloor> + 2208988800"
proof -
  have u: "unat (u32_of_double t) = nat \<lfloor>t\<rfloor>"
    using assms by (simp add: unat_u32_of_double)
  have b: "nat \<lfloor>t\<rfloor> < 2085978496"
    using assms by (simp add: floor_less_iff nat_less_iff)
  have "unat ((ucast (u32_of_double t) :: u64) + NTP_TIMESTAMP_DELTA) = nat \<lfloor>t\<rfloor> + 2208988800"
    using b by (simp add: unat_word_ariths NTP_TIMESTAMP_DELTA_def unat_ucast_u32_u64 u)
  then show ?thesis
    using b by (simp add: encode_timestamp_def Let_def unat_ucast_u64_u32)
qed

lemma encode_timestamp_frac:
  assumes "0 \<le> t" "t < 4294967296"
  shows "unat (snd (encode_timestamp t)) = nat \<lfloor>(t - real_of_int \<lfloor>t\<rfloor>) * 4294967296\<rfloor>"
proof -
  have u: "double_of_u32 (u32_of_double t) = real_of_int \<lfloor>t\<rfloor>"
    using assms by (simp add: double_of_u32_def unat_u32_of_double)
  have f0: "0 \<le> (t - real_of_int \<lfloor>t\<rfloor>) * 4294967296"
    by simp
  have "t - real_of_int \<lfloor>t\<rfloor> < 1"
    by linarith
  then have f1: "(t - real_of_int \<lfloor>t\<rfloor>) * 4294967296 < 4294967296"
    by simp
  show ?thesis
    using unat_u32_of_double [OF f0 f1] by (simp add: encode_timestamp_def Let_def u)
qed

lemma decode_timestamp_value:
  assumes "2208988800 \<le> unat s"
  shows "decode_timestamp s f = real (unat s - 2208988800) + real (unat f) / 4294967296"
proof -
  have c: "unat (ucast s :: u64) = unat s"
    by (rule unat_ucast_u32_u64)
  have d: "unat (NTP_TIMESTAMP_DELTA) = 2208988800"
    by (simp add: NTP_TIMESTAMP_DELTA_def)
  have "NTP_TIMESTAMP_DELTA \<le> (ucast s :: u64)"
    using assms by (simp add: word_le_nat_alt c d)
  then have "unat ((ucast s :: u64) - NTP_TIMESTAMP_DELTA) = unat s - 2208988800"
    by (simp add: unat_sub c d)
  then show ?thesis
    by (simp add: decode_timestamp_def double_of_u64_def double_of_u32_def)
qed

lemma decode_encode_value:
  assumes "0 \<le> t" "t < 2085978496"
  shows "decode_timestamp (ntohl (htonl (fst (encode_timestamp t))))
           (ntohl (htonl (snd (encode_timestamp t))))
         = real_of_int \<lfloor>t\<rfloor> + real_of_int \<lfloor>(t - real_of_int \<lfloor>t\<rfloor>) * 4294967296\<rfloor> / 4294967296"
proof -
  have t2: "t < 4294967296"
    using assms(2) by simp
  have f0: "0 \<le> \<lfloor>(t - real_of_int \<lfloor>t\<rfloor>) * 4294967296\<rfloor>"
    by simp
  have s0: "0 \<le> \<lfloor>t\<rfloor>"
    using assms(1) by simp
  show ?thesis
    using encode_timestamp_sec [OF assms] encode_timestamp_frac [OF assms(1) t2] f0 s0
    by (simp add: ntohl_htonl decode_timestamp_value)
qed

text \<open>
  Claim C4. For a time \<open>t\<close> in the range the 32-bit seconds field can hold
  (\<open>0 \<le> t\<close> and \<open>\<lfloor>t\<rfloor> + 2208988800 < 2 ^ 32\<close>, that is \<open>t < 2085978496\<close>), the request
  carries the seconds \<open>\<lfloor>t\<rfloor> + 2208988800\<close> and the fraction \<open>(t - \<lfloor>t\<rfloor>) * 2 ^ 32\<close> cut to
  an integer, both in network byte order, and decoding that pair gives a value within
  \<open>2 ^ -32\<close> seconds of \<open>t\<close>.
\<close>

theorem codec_round_trip:
  assumes "0 \<le> t" "t < 2085978496"
  shows "unat (fst (encode_timestamp t)) = nat \<lfloor>t\<rfloor> + 2208988800
     \<and> unat (snd (encode_timestamp t)) = nat \<lfloor>(t - real_of_int \<lfloor>t\<rfloor>) * 2 ^ 32\<rfloor>
     \<and> \<bar>decode_timestamp (ntohl (htonl (fst (encode_timestamp t))))
           (ntohl (htonl (snd (encode_timestamp t)))) - t\<bar> \<le> 1 / 2 ^ 32"
proof -
  let ?x = "(t - real_of_int \<lfloor>t\<rfloor>) * 4294967296"
  have t2: "t < 4294967296"
    using assms(2) by simp
  have lo: "real_of_int \<lfloor>?x\<rfloor> \<le> ?x"
    by (rule of_int_floor_le)
  have hi: "?x < real_of_int \<lfloor>?x\<rfloor> + 1"
    by linarith
  have "\<bar>real_of_int \<lfloor>t\<rfloor> + real_of_int \<lfloor>?x\<rfloor> / 4294967296 - t\<bar> \<le> 1 / 4294967296"
    using lo hi by (simp add: field_simps abs_le_iff)
  then show ?thesis
    using encode_timestamp_sec [OF assms] encode_timestamp_frac [OF assms(1) t2]
    by (simp add: decode_encode_value [OF assms])
qed

theorem codec_round_trip_witness:
  "encode_timestamp (2001 / 2) = (2208989800, 2147483648)
   \<and> \<bar>decode_timestamp (ntohl (htonl (fst (encode_timestamp (2001 / 2)))))
           (ntohl (htonl (snd (encode_timestamp (2001 / 2))))) - 2001 / 2\<bar> \<le> 1 / 2 ^ 32"
proof -
  have "encode_timestamp (2001 / 2) = (2208989800, 2147483648)"
    by (simp add: encode_timestamp_def u32_of_double_def c_trunc_def double_of_u32_def
        NTP_TIMESTAMP_DELTA_def)
  then show ?thesis
    using codec_round_trip [of "2001 / 2"] by simp
qed

text \<open>
  The bound on \<open>t\<close> is needed: at Unix time 2085978496 the seconds field wraps to 0,
  and the 64-bit subtraction in the decoder yields \<open>2 ^ 64 - 2208988800\<close>.
\<close>

lemma codec_after_2036:
  "decode_timestamp (ntohl (htonl (fst (encode_timestamp 2085978496))))
      (ntohl (htonl (snd (encode_timestamp 2085978496)))) = 18446744071500562816"
  by (simp add: ntohl_htonl encode_timestamp_def u32_of_double_def c_trunc_def double_of_u32_def
      NTP_TIMESTAMP_DELTA_def decode_timestamp_def double_of_u64_def)

section \<open>Properties of the host name check\<close>

lemma char_range:
  "(a \<le> c \<and> c \<le> b) \<longleftrightarrow> c \<in> char_of ` set [of_char a ..< Suc (of_char b :: nat)]"
proof
  assume "a \<le> c \<and> c \<le> b"
  then have "(of_char c :: nat) \<in> set [of_char a ..< Suc (of_char b)]"
    by (simp add: less_eq_char_def less_Suc_eq_le del: upt_Suc)
  then have "char_of (of_char c :: nat) \<in> char_of ` set [of_char a ..< Suc (of_char b :: nat)]"
    by (rule imageI)
  then show "c \<in> char_of ` set [of_char a ..< Suc (of_char b :: nat)]"
    by simp
next
  assume "c \<in> char_of ` set [of_char a ..< Suc (of_char b :: nat)]"
  then obtain n :: nat where n: "c = char_of n" "of_char a \<le> n" "n \<le> of_char b"
    by auto
  have "n < 256"
    using n(3) of_char_mod_256 [of b, where ?'a = nat]
    by (metis le_less_trans mod_less_divisor zero_less_numeral)
  then have "(of_char c :: nat) = n"
    using n(1) by simp
  then show "a \<le> c \<and> c \<le> b"
    using n by (simp add: less_eq_char_def)
qed

lemma hostname_char_ok_iff: "hostname_char_ok c \<longleftrightarrow> c \<in> spec_hostname_charset"
  unfolding hostname_char_ok_def char_range spec_hostname_charset_def
  by (simp add: char_of_def bit_Suc_0_iff)

lemma hostname_chars_loop_iff: "hostname_chars_loop h \<longleftrightarrow> (\<forall>c\<in>set h. hostname_char_ok c)"
  by (induction h) auto

text \<open>The check is exactly: length between 1 and 255, every character in the set.\<close>

lemma validate_hostname_iff:
  "validate_hostname (Some h) \<longleftrightarrow>
     1 \<le> length h \<and> length h \<le> 255 \<and> set h \<subseteq> spec_hostname_charset"
  by (auto simp add: validate_hostname_def MAX_HOSTNAME_LEN_def hostname_chars_loop_iff
      hostname_char_ok_iff Suc_le_eq)

lemma validate_hostname_null: "\<not> validate_hostname None"
  by (simp add: validate_hostname_def)

text \<open>
  Claim C10. \<open>validate_hostname\<close> looks at the length and at each character only:
  every non-empty string of at most 255 characters, all of them letters, digits,
  \<open>.\<close> or \<open>-\<close>, is accepted, whatever its structure (a lone \<open>-\<close>, dots only, digits
  only).
\<close>

theorem validate_hostname_accepts:
  "h \<noteq> [] \<and> length h \<le> 255 \<and> set h \<subseteq> spec_hostname_charset \<Longrightarrow> validate_hostname (Some h)"
  by (cases h) (simp_all add: validate_hostname_iff)

theorem validate_hostname_accepts_witness:
  "validate_hostname (Some ''-'') \<and> validate_hostname (Some ''...'')
   \<and> validate_hostname (Some ''0123456789'')"
  using validate_hostname_accepts [of "''-''"] validate_hostname_accepts [of "''...''"]
    validate_hostname_accepts [of "''0123456789''"]
  by (simp add: spec_hostname_charset_def)

text \<open>
  Claim C7. A user host name that is empty, longer than 255 characters or contains a
  character other than a letter, a digit, \<open>.\<close> or \<open>-\<close> ends the program with exit
  code 1: the only effect is the line reporting the invalid host name, so no name is
  resolved, no packet is sent and no built-in server is tried.
\<close>

theorem invalid_hostname_is_fatal:
  "h = [] \<or> length h > 255 \<or> \<not> set h \<subseteq> spec_hostname_charset \<Longrightarrow>
   main_sync pf samples (Some h) w = (1, w\<lparr>trace := trace w @ [Print (MsgInvalidHostname h)]\<rparr>)"
  by (auto simp add: main_sync_def init_networking_def emit_def validate_hostname_iff)

theorem invalid_hostname_is_fatal_witness:
  "main_sync pf_unreachable 1 (Some ''a/b'') init_world
     = (1, \<lparr>trace = [Print (MsgInvalidHostname ''a/b'')], exchanges = 0, clock_calls = 0\<rparr>)"
  using invalid_hostname_is_fatal [of "''a/b''" pf_unreachable 1 init_world]
  by (simp add: spec_hostname_charset_def init_world_def)

section \<open>Properties of the response validator\<close>

lemma validate_ntp_response_iff:
  "validate_ntp_response p sent_sec sent_frac \<longleftrightarrow>
     (li_vn_mode p AND 7 = 4 \<or> li_vn_mode p AND 7 = 5) \<and> stratum p \<noteq> 0 \<and> stratum p \<le> 15
     \<and> \<not> 1 < sint (c_abs (ntohl (orig_ts_sec p) - sent_sec)) \<and> ntohl (trans_ts_sec p) \<noteq> 0"
  by (auto simp add: validate_ntp_response_def Let_def MAX_VALID_STRATUM_def not_less)

lemma sint_diff_no_overflow:
  fixes a b :: u32
  assumes "- (2 ^ 31) \<le> sint a - sint b" "sint a - sint b < 2 ^ 31"
  shows "sint (a - b) = sint a - sint b"
proof -
  have "sint (a - b) = signed_take_bit 31 (sint a - sint b)"
    by (simp add: sint_word_ariths)
  also have "\<dots> = sint a - sint b"
    using assms by (simp add: signed_take_bit_int_eq_self)
  finally show ?thesis .
qed

lemma sint_neg_no_overflow:
  fixes d :: u32
  assumes "- (2 ^ 31) < sint d"
  shows "sint (- d) = - sint d"
proof -
  have "sint d < 2 ^ 31"
    using sint_lt [of d] by simp
  have "sint (- d) = signed_take_bit 31 (- sint d)"
    by (simp add: sint_word_ariths)
  also have "\<dots> = - sint d"
    using assms \<open>sint d < 2 ^ 31\<close> by (simp add: signed_take_bit_int_eq_self)
  finally show ?thesis .
qed

text \<open>Where the \<open>int\<close> computation of the source is defined, it is the absolute difference.\<close>

lemma sint_c_abs:
  fixes a b :: u32
  assumes "- (2 ^ 31) < sint a - sint b" "sint a - sint b < 2 ^ 31"
  shows "sint (c_abs (a - b)) = \<bar>sint a - sint b\<bar>"
proof -
  have d: "sint (a - b) = sint a - sint b"
    using assms by (simp add: sint_diff_no_overflow)
  show ?thesis
    using assms sint_neg_no_overflow [of "a - b"] by (simp add: c_abs_def d)
qed

lemma mode_low_bits: "unat ((x :: u8) AND 7) = unat x mod 8"
proof -
  have "(7 :: u8) = mask 3"
    by (simp add: mask_eq_exp_minus_1)
  then have "x AND 7 = take_bit 3 x"
    by (simp add: take_bit_eq_mask)
  then show ?thesis
    by (simp add: take_bit_eq_mod unat_mod_distrib)
qed

lemma mode_eq:
  "(x :: u8) AND 7 = 4 \<longleftrightarrow> unat x mod 8 = 4"
  "(x :: u8) AND 7 = 5 \<longleftrightarrow> unat x mod 8 = 5"
  using mode_low_bits [of x] by (auto simp add: word_unat_eq_iff)

lemma stratum_range: "(s :: u8) \<noteq> 0 \<and> s \<le> 15 \<longleftrightarrow> 1 \<le> unat s \<and> unat s \<le> 15"
  by (auto simp add: word_le_nat_alt unat_eq_0 Suc_le_eq unat_gt_0)

text \<open>
  Claim C3 as written fails on the origin criterion. The two second values are
  compared as \<open>int\<close>: a request sent in second \<open>0xFFFFFFFF\<close> and an answer echoing
  second 0 are one apart for the code, which accepts the answer, although the two
  fields differ by 4294967295.
\<close>

theorem origin_check_wraps:
  "validate_ntp_response era_wrap_packet 0xFFFFFFFF 0
   \<and> \<not> \<bar>uint (ntohl (orig_ts_sec era_wrap_packet)) - uint (0xFFFFFFFF :: u32)\<bar> \<le> 1"
  by (simp add: era_wrap_packet_def validate_ntp_response_def zero_packet_def ntohl_def htonl_def
      c_abs_def MAX_VALID_STRATUM_def Let_def)

text \<open>
  Claim C3, amended. Wherever the source's \<open>int\<close> subtraction and \<open>abs\<close> are defined
  (the difference of the two seconds, read as signed 32-bit integers, neither
  overflows nor is \<open>INT_MIN\<close>), the validator accepts a packet if and only if its mode
  (low 3 bits of byte 0) is 4 or 5, its stratum lies in 1..15, the echoed origin
  second and the sent second, read as signed 32-bit integers, differ by at most 1,
  and the transmit second is not 0.
\<close>

theorem validate_ntp_response_criteria:
  assumes "- (2 ^ 31) < sint (ntohl (orig_ts_sec p)) - sint sent_sec"
    and "sint (ntohl (orig_ts_sec p)) - sint sent_sec < 2 ^ 31"
  shows "validate_ntp_response p sent_sec sent_frac \<longleftrightarrow>
     (unat (li_vn_mode p) mod 8 = 4 \<or> unat (li_vn_mode p) mod 8 = 5)
     \<and> 1 \<le> unat (stratum p) \<and> unat (stratum p) \<le> 15
     \<and> \<bar>sint (ntohl (orig_ts_sec p)) - sint sent_sec\<bar> \<le> 1
     \<and> ntohl (trans_ts_sec p) \<noteq> 0"
  using sint_c_abs [OF assms] stratum_range [of "stratum p"]
  by (auto simp add: validate_ntp_response_iff mode_eq not_less)

text \<open>
  An answer accepted across the wrap of the seconds field, an answer accepted with
  the second sent echoed, and one rejection per criterion: origin second off by 2,
  mode 3, stratum 0, stratum 16, transmit second 0.
\<close>

theorem validate_ntp_response_criteria_witness:
  "validate_ntp_response era_wrap_packet 0xFFFFFFFF 0
   \<and> validate_ntp_response (recv_packet (good_io 1000 1001)) 2208989800 0
   \<and> \<not> validate_ntp_response (recv_packet (good_io 1000 1001)) 2208989802 0
   \<and> \<not> validate_ntp_response (era_wrap_packet\<lparr>li_vn_mode := 0x1B\<rparr>) 0xFFFFFFFF 0
   \<and> \<not> validate_ntp_response (era_wrap_packet\<lparr>stratum := 0\<rparr>) 0xFFFFFFFF 0
   \<and> \<not> validate_ntp_response (era_wrap_packet\<lparr>stratum := 16\<rparr>) 0xFFFFFFFF 0
   \<and> \<not> validate_ntp_response (era_wrap_packet\<lparr>trans_ts_sec := 0\<rparr>) 0xFFFFFFFF 0"
  using validate_ntp_response_criteria [of era_wrap_packet "0xFFFFFFFF" 0]
    validate_ntp_response_criteria [of "recv_packet (good_io 1000 1001)" 2208989800 0]
    validate_ntp_response_criteria [of "recv_packet (good_io 1000 1001)" 2208989802 0]
    validate_ntp_response_criteria [of "era_wrap_packet\<lparr>li_vn_mode := 0x1B\<rparr>" "0xFFFFFFFF" 0]
    validate_ntp_response_criteria [of "era_wrap_packet\<lparr>stratum := 0\<rparr>" "0xFFFFFFFF" 0]
    validate_ntp_response_criteria [of "era_wrap_packet\<lparr>stratum := 16\<rparr>" "0xFFFFFFFF" 0]
    validate_ntp_response_criteria [of "era_wrap_packet\<lparr>trans_ts_sec := 0\<rparr>" "0xFFFFFFFF" 0]
  by (simp add: era_wrap_packet_def good_io_def zero_packet_def ntohl_def htonl_def
      encode_timestamp_def u32_of_double_def c_trunc_def double_of_u32_def NTP_TIMESTAMP_DELTA_def)

section \<open>Properties of one exchange\<close>

lemma good_io_result_at:
  "fst (query_ntp_server h (good_io 1000 t4))
     = \<lparr>corrected_time = 1001 + (t4 - 1000) / 2, delay = t4 - 1000, error = NTP_SUCCESS\<rparr>"
  by (simp add: query_ntp_server_def good_io_def encode_timestamp_def u32_of_double_def c_trunc_def
      double_of_u32_def NTP_TIMESTAMP_DELTA_def NTP_PACKET_SIZE_def validate_ntp_response_def
      zero_packet_def ntohl_def htonl_def c_abs_def MAX_VALID_STRATUM_def decode_timestamp_def
      double_of_u64_def compute_offset_def Let_def)

text \<open>The whole exchange on the example answer: result and calls made.\<close>

lemma good_io_result:
  "query_ntp_server h (good_io 1000 1001) =
     (\<lparr>corrected_time = 2003 / 2, delay = 1, error = NTP_SUCCESS\<rparr>,
      [Getaddrinfo h, Socket,
       Sendto (zero_packet\<lparr>li_vn_mode := 0x1B, trans_ts_sec := htonl 2208989800, trans_ts_frac := 0\<rparr>),
       Recv, Close])"
  by (simp add: query_ntp_server_def good_io_def encode_timestamp_def u32_of_double_def c_trunc_def
      double_of_u32_def NTP_TIMESTAMP_DELTA_def NTP_PACKET_SIZE_def validate_ntp_response_def
      zero_packet_def ntohl_def htonl_def c_abs_def MAX_VALID_STRATUM_def decode_timestamp_def
      double_of_u64_def compute_offset_def Let_def)

lemma dns_down_result:
  "query_ntp_server h dns_down_io
     = (\<lparr>corrected_time = 0, delay = 0, error = NTP_ERR_DNS_FAILED\<rparr>, [Getaddrinfo h])"
  by (simp add: query_ntp_server_def dns_down_io_def)

text \<open>
  Claim C5. A successful exchange returns \<open>delay = (T4 - T1) - (T3 - T2)\<close> and
  \<open>corrected_time = T3 + delay / 2\<close>, where \<open>T1\<close> and \<open>T4\<close> are the local times read
  before sending and after receiving and \<open>T2\<close>, \<open>T3\<close> are the decoded receive and
  transmit timestamps of the answer; the two assignments compute this for any four
  times, and \<open>T1 = 0\<close>, \<open>T2 = 10\<close>, \<open>T3 = 10.1\<close>, \<open>T4 = 0.2\<close> give delay \<open>0.1\<close> and
  corrected time \<open>10.15\<close>.
\<close>

theorem offset_formula:
  assumes "error (fst (query_ntp_server h io)) = NTP_SUCCESS"
  shows "(let r = fst (query_ntp_server h io);
              T1 = time_before_send io;
              T2 = decode_timestamp (ntohl (recv_ts_sec (recv_packet io)))
                     (ntohl (recv_ts_frac (recv_packet io)));
              T3 = decode_timestamp (ntohl (trans_ts_sec (recv_packet io)))
                     (ntohl (trans_ts_frac (recv_packet io)));
              T4 = time_after_recv io
          in delay r = (T4 - T1) - (T3 - T2) \<and> corrected_time r = T3 + delay r / 2)
     \<and> compute_offset t1 t2 t3 t4 r0
          = r0\<lparr>delay := (t4 - t1) - (t3 - t2), corrected_time := t3 + ((t4 - t1) - (t3 - t2)) / 2\<rparr>
     \<and> compute_offset 0 10 (101 / 10) (2 / 10) r0 = r0\<lparr>delay := 1 / 10, corrected_time := 1015 / 100\<rparr>"
proof -
  have a: "compute_offset t1 t2 t3 t4 r0
          = r0\<lparr>delay := (t4 - t1) - (t3 - t2), corrected_time := t3 + ((t4 - t1) - (t3 - t2)) / 2\<rparr>"
    for t1 t2 t3 t4
    by (simp add: compute_offset_def Let_def)
  have b: "compute_offset 0 10 (101 / 10) (2 / 10) r0 = r0\<lparr>delay := 1 / 10, corrected_time := 1015 / 100\<rparr>"
    by (simp add: a)
  show ?thesis
    using assms a b
    by (simp add: query_ntp_server_def Let_def compute_offset_def split: if_splits prod.splits)
qed

theorem offset_formula_witness:
  "delay (fst (query_ntp_server ''ntp.example'' (good_io 1000 1001))) = 1
   \<and> corrected_time (fst (query_ntp_server ''ntp.example'' (good_io 1000 1001))) = 2003 / 2"
  using offset_formula [of "''ntp.example''" "good_io 1000 1001"]
  by (simp add: good_io_result_at)

lemma query_never_invalid_stratum:
  "error (fst (query_ntp_server h io)) \<noteq> NTP_ERR_INVALID_STRATUM"
  by (simp add: query_ntp_server_def Let_def split: prod.splits)

lemma good_io_validates:
  "validate_ntp_response (recv_packet (good_io 1000 1001)) (fst (encode_timestamp 1000))
     (snd (encode_timestamp 1000))"
  by (simp add: good_io_def encode_timestamp_def u32_of_double_def c_trunc_def
      double_of_u32_def NTP_TIMESTAMP_DELTA_def validate_ntp_response_def
      zero_packet_def ntohl_def htonl_def c_abs_def MAX_VALID_STRATUM_def Let_def)

lemma stratum16_rejected: "\<not> validate_ntp_response (recv_packet stratum16_io) s f"
  by (simp add: stratum16_io_def validate_ntp_response_def MAX_VALID_STRATUM_def Let_def)

text \<open>
  Claim C2 as written fails. An answer that passes every check with stratum 2 is
  rejected with stratum 16, so the stratum is the failing criterion, and the exchange
  ends with \<open>NTP_ERR_INVALID_RESPONSE\<close>, not \<open>NTP_ERR_INVALID_STRATUM\<close>.
\<close>

theorem stratum_rejection_is_generic:
  "validate_ntp_response ((recv_packet stratum16_io)\<lparr>stratum := 2\<rparr>)
      (fst (encode_timestamp (time_before_send stratum16_io)))
      (snd (encode_timestamp (time_before_send stratum16_io)))
   \<and> stratum (recv_packet stratum16_io) = 16
   \<and> error (fst (query_ntp_server ''ntp.example'' stratum16_io)) = NTP_ERR_INVALID_RESPONSE
   \<and> error (fst (query_ntp_server ''ntp.example'' stratum16_io)) \<noteq> NTP_ERR_INVALID_STRATUM"
proof -
  have "(recv_packet stratum16_io)\<lparr>stratum := 2\<rparr> = recv_packet (good_io 1000 1001)"
    by (simp add: stratum16_io_def good_io_def)
  moreover have "time_before_send stratum16_io = 1000"
    by (simp add: stratum16_io_def good_io_def)
  moreover have "error (fst (query_ntp_server ''ntp.example'' stratum16_io)) = NTP_ERR_INVALID_RESPONSE"
    using stratum16_rejected
    by (simp add: query_ntp_server_def Let_def NTP_PACKET_SIZE_def split: prod.splits)
       (simp add: stratum16_io_def good_io_def)
  ultimately show ?thesis
    using good_io_validates by (simp add: stratum16_io_def)
qed

text \<open>
  Claim C2, amended. Every answer of full length that the validator rejects ends the
  exchange with \<open>NTP_ERR_INVALID_RESPONSE\<close>, whichever criterion failed, the stratum
  included: the validator returns 0 or 1 only, and no exchange ever ends with
  \<open>NTP_ERR_INVALID_STRATUM\<close>.
\<close>

theorem rejection_is_invalid_response:
  assumes "getaddrinfo_ok io" "socket_ok io" "sendto_ok io" "NTP_PACKET_SIZE \<le> recv_bytes io"
    and "\<not> validate_ntp_response (recv_packet io) (fst (encode_timestamp (time_before_send io)))
              (snd (encode_timestamp (time_before_send io)))"
  shows "error (fst (query_ntp_server h io)) = NTP_ERR_INVALID_RESPONSE
     \<and> (\<forall>h' io'. error (fst (query_ntp_server h' io')) \<noteq> NTP_ERR_INVALID_STRATUM)"
  using assms
  by (simp add: query_ntp_server_def Let_def query_never_invalid_stratum case_prod_beta)

theorem rejection_is_invalid_response_witness:
  "error (fst (query_ntp_server ''ntp.example'' stratum16_io)) = NTP_ERR_INVALID_RESPONSE"
  using rejection_is_invalid_response [of stratum16_io "''ntp.example''"] stratum16_rejected
  by (simp add: stratum16_io_def good_io_def NTP_PACKET_SIZE_def)

section \<open>Properties of the sampling loop\<close>

lemma resolved_hosts_append [simp]:
  "resolved_hosts (xs @ ys) = resolved_hosts xs @ resolved_hosts ys"
  by (induction xs rule: resolved_hosts.induct) simp_all

text \<open>An exchange resolves its host once and never touches the clock or prints.\<close>

lemma query_ntp_server_events:
  "filter clock_event (snd (query_ntp_server h io)) = []"
  "resolved_hosts (snd (query_ntp_server h io)) = [h]"
  "count_list (snd (query_ntp_server h io)) Getuid = 0"
  "count_list (snd (query_ntp_server h io)) (Print m) = 0"
  by (simp_all add: query_ntp_server_def Let_def clock_event_def split: prod.split)

lemma call_query_ntp_server_eq:
  "call_query_ntp_server pf h w =
     (fst (query_ntp_server h (exchange pf h (exchanges w))),
      w\<lparr>trace := trace w @ snd (query_ntp_server h (exchange pf h (exchanges w))),
        exchanges := Suc (exchanges w)\<rparr>)"
  by (simp add: call_query_ntp_server_def case_prod_beta)

lemma sample_loop_done: "\<not> i < samples \<Longrightarrow> sample_loop pf h samples i st w = (st, w)"
  by (simp add: sample_loop.simps)

lemma sample_loop_step:
  "i < samples \<Longrightarrow>
   sample_loop pf h samples i st w =
     sample_loop pf h samples (i + 1)
       (fst (record_sample samples i (fst (call_query_ntp_server pf h w)) st))
       (emit (Print (snd (record_sample samples i (fst (call_query_ntp_server pf h w)) st)))
          (snd (call_query_ntp_server pf h w)))"
  by (subst sample_loop.simps) (simp add: case_prod_beta)

text \<open>
  What the loop does to the world, whatever the samples: one exchange per remaining
  iteration, all with the same host, and no event of the clock setter.
\<close>

lemma sample_loop_world:
  "exchanges (snd (sample_loop pf h samples i st w)) = exchanges w + nat (samples - i)
   \<and> clock_calls (snd (sample_loop pf h samples i st w)) = clock_calls w
   \<and> filter clock_event (trace (snd (sample_loop pf h samples i st w))) = filter clock_event (trace w)
   \<and> resolved_hosts (trace (snd (sample_loop pf h samples i st w)))
       = resolved_hosts (trace w) @ replicate (nat (samples - i)) h
   \<and> count_list (trace (snd (sample_loop pf h samples i st w))) Getuid = count_list (trace w) Getuid
   \<and> count_list (trace (snd (sample_loop pf h samples i st w))) (Print (MsgError e))
       = count_list (trace w) (Print (MsgError e))"
proof (induction "nat (samples - i)" arbitrary: i st w)
  case 0
  then have "\<not> i < samples"
    by simp
  then show ?case
    by (simp add: sample_loop_done)
next
  case (Suc n)
  then have lt: "i < samples" and n: "n = nat (samples - (i + 1))"
    by linarith+
  have rep: "nat (samples - i) = Suc (nat (samples - (i + 1)))"
    using lt by linarith
  show ?case
    using Suc.hyps(1) [OF n]
    by (simp add: sample_loop_step [OF lt] call_query_ntp_server_eq emit_def
        query_ntp_server_events clock_event_def rep replicate_append_same record_sample_def Let_def)
qed

text \<open>Inside the array, the element read back is the result just stored.\<close>

lemma record_sample_in_range:
  "nat i < length (results st) \<Longrightarrow>
   record_sample samples i r st =
     (if error r = NTP_SUCCESS
      then (add_sample r (st\<lparr>results := (results st)[nat i := r]\<rparr>),
            MsgSampleOk (i + 1) samples (delay r * 1000))
      else (st\<lparr>results := (results st)[nat i := r]\<rparr>, MsgSampleFail (i + 1) samples (error r)))"
  by (simp add: record_sample_def Let_def)

lemma sample_results_0 [simp]: "sample_results pf h k 0 = []"
  by (simp add: sample_results_def)

lemma sample_results_Suc:
  "sample_results pf h k (Suc n) =
     fst (query_ntp_server h (exchange pf h k)) # sample_results pf h (Suc k) n"
  by (simp add: sample_results_def upt_conv_Cons del: upt_Suc)

lemma successful_empty_iff:
  "successful (sample_results pf h k n) = [] \<longleftrightarrow>
     (\<forall>j. k \<le> j \<and> j < k + n \<longrightarrow> error (fst (query_ntp_server h (exchange pf h j))) \<noteq> NTP_SUCCESS)"
  by (auto simp add: successful_def sample_results_def filter_empty_conv)

text \<open>
  The sums after the loop, for at most \<open>MAX_SAMPLES\<close> samples: the successful results
  of the exchanges made, added up, and their number.
\<close>

lemma sample_loop_state:
  "0 \<le> i \<Longrightarrow> samples \<le> MAX_SAMPLES \<Longrightarrow> length (results st) = nat MAX_SAMPLES \<Longrightarrow>
   sum_time (fst (sample_loop pf h samples i st w))
     = sum_time st
       + sum_list (map corrected_time (successful (sample_results pf h (exchanges w) (nat (samples - i)))))
   \<and> sum_delay (fst (sample_loop pf h samples i st w))
     = sum_delay st
       + sum_list (map delay (successful (sample_results pf h (exchanges w) (nat (samples - i)))))
   \<and> success_count (fst (sample_loop pf h samples i st w))
     = success_count st
       + int (length (successful (sample_results pf h (exchanges w) (nat (samples - i)))))"
proof (induction "nat (samples - i)" arbitrary: i st w)
  case 0
  then have "\<not> i < samples"
    by simp
  then show ?case
    using 0(1) [symmetric] by (simp add: sample_loop_done successful_def)
next
  case (Suc n)
  let ?r = "fst (query_ntp_server h (exchange pf h (exchanges w)))"
  from Suc have lt: "i < samples" and n: "n = nat (samples - (i + 1))"
    by linarith+
  have rep: "nat (samples - i) = Suc (nat (samples - (i + 1)))"
    using lt by linarith
  have inr: "nat i < length (results st)"
    using lt Suc.prems by simp
  show ?case
  proof (cases "error ?r = NTP_SUCCESS")
    case True
    then show ?thesis
      using Suc.hyps(1) [OF n, of "add_sample ?r (st\<lparr>results := (results st)[nat i := ?r]\<rparr>)"]
        Suc.prems
      by (simp add: sample_loop_step [OF lt] call_query_ntp_server_eq emit_def
          record_sample_in_range [OF inr] rep sample_results_Suc successful_def add_sample_def)
  next
    case False
    then show ?thesis
      using Suc.hyps(1) [OF n, of "st\<lparr>results := (results st)[nat i := ?r]\<rparr>"] Suc.prems
      by (simp add: sample_loop_step [OF lt] call_query_ntp_server_eq emit_def
          record_sample_in_range [OF inr] rep sample_results_Suc successful_def)
  qed
qed

lemma sync_with_server_multi_sample_eq:
  "sync_with_server_multi_sample pf h samples w =
     finish_samples samples
       (fst (sample_loop pf h samples 0 init_sample_state (emit (Print (MsgSyncStart h samples)) w)))
       (snd (sample_loop pf h samples 0 init_sample_state (emit (Print (MsgSyncStart h samples)) w)))"
  by (simp add: sync_with_server_multi_sample_def case_prod_beta Let_def)

lemma finish_samples_world:
  "exchanges (snd (finish_samples samples st w)) = exchanges w"
  "clock_calls (snd (finish_samples samples st w)) = clock_calls w"
  "filter clock_event (trace (snd (finish_samples samples st w))) = filter clock_event (trace w)"
  "resolved_hosts (trace (snd (finish_samples samples st w))) = resolved_hosts (trace w)"
  "count_list (trace (snd (finish_samples samples st w))) Getuid = count_list (trace w) Getuid"
  "count_list (trace (snd (finish_samples samples st w))) (Print (MsgError e))
     = count_list (trace w) (Print (MsgError e))"
  by (simp_all add: finish_samples_def Let_def emit_def clock_event_def)

lemma sync_world:
  "exchanges (snd (sync_with_server_multi_sample pf h samples w)) = exchanges w + nat samples"
  "clock_calls (snd (sync_with_server_multi_sample pf h samples w)) = clock_calls w"
  "filter clock_event (trace (snd (sync_with_server_multi_sample pf h samples w)))
     = filter clock_event (trace w)"
  "resolved_hosts (trace (snd (sync_with_server_multi_sample pf h samples w)))
     = resolved_hosts (trace w) @ replicate (nat samples) h"
  "count_list (trace (snd (sync_with_server_multi_sample pf h samples w))) Getuid
     = count_list (trace w) Getuid"
  "count_list (trace (snd (sync_with_server_multi_sample pf h samples w))) (Print (MsgError e))
     = count_list (trace w) (Print (MsgError e))"
  using sample_loop_world [of pf h samples 0 init_sample_state "emit (Print (MsgSyncStart h samples)) w" e]
  by (simp_all add: sync_with_server_multi_sample_eq finish_samples_world emit_def clock_event_def)

text \<open>The result of one host attempt, in terms of the exchanges it makes.\<close>

lemma sync_result:
  assumes "samples \<le> MAX_SAMPLES"
  shows "fst (sync_with_server_multi_sample pf h samples w) =
     (if successful (sample_results pf h (exchanges w) (nat samples)) = []
      then \<lparr>corrected_time = 0, delay = 0, error = NTP_ERR_RECV_TIMEOUT\<rparr>
      else \<lparr>corrected_time =
              sum_list (map corrected_time (successful (sample_results pf h (exchanges w) (nat samples))))
                / real (length (successful (sample_results pf h (exchanges w) (nat samples)))),
            delay =
              sum_list (map delay (successful (sample_results pf h (exchanges w) (nat samples))))
                / real (length (successful (sample_results pf h (exchanges w) (nat samples)))),
            error = NTP_SUCCESS\<rparr>)"
  using sample_loop_state [of 0 samples init_sample_state pf h "emit (Print (MsgSyncStart h samples)) w"]
    assms
  by (simp add: sync_with_server_multi_sample_eq finish_samples_def Let_def init_sample_state_def
      emit_def)

lemma sync_last_print:
  assumes "samples \<le> MAX_SAMPLES"
    and "successful (sample_results pf h (exchanges w) (nat samples)) \<noteq> []"
  shows "last (trace (snd (sync_with_server_multi_sample pf h samples w))) =
     Print (MsgAverage
       (sum_list (map delay (successful (sample_results pf h (exchanges w) (nat samples))))
          / real (length (successful (sample_results pf h (exchanges w) (nat samples)))) * 1000)
       (int (length (successful (sample_results pf h (exchanges w) (nat samples)))))
       samples)"
  using sample_loop_state [of 0 samples init_sample_state pf h "emit (Print (MsgSyncStart h samples)) w"]
    assms
  by (simp add: sync_with_server_multi_sample_eq finish_samples_def Let_def init_sample_state_def
      emit_def)

text \<open>
  Claim C9. When none of the samples of a host attempt succeeds (at most
  \<open>MAX_SAMPLES\<close> samples, as \<open>main\<close> guarantees), the attempt returns the fixed result
  with error \<open>NTP_ERR_RECV_TIMEOUT\<close>, whatever the errors of the samples were.
\<close>

theorem all_samples_failed_is_recv_timeout:
  assumes "samples \<le> MAX_SAMPLES"
    and "\<forall>k. exchanges w \<le> k \<and> k < exchanges w + nat samples \<longrightarrow>
           error (fst (query_ntp_server h (exchange pf h k))) \<noteq> NTP_SUCCESS"
  shows "fst (sync_with_server_multi_sample pf h samples w)
           = \<lparr>corrected_time = 0, delay = 0, error = NTP_ERR_RECV_TIMEOUT\<rparr>"
  using assms by (simp add: sync_result successful_empty_iff)

text \<open>Three samples that all fail in name resolution: the attempt reports a timeout.\<close>

theorem all_samples_failed_is_recv_timeout_witness:
  "error (fst (query_ntp_server ''ntp.example'' (exchange pf_unreachable ''ntp.example'' 0)))
     = NTP_ERR_DNS_FAILED
   \<and> fst (sync_with_server_multi_sample pf_unreachable ''ntp.example'' 3 init_world)
     = \<lparr>corrected_time = 0, delay = 0, error = NTP_ERR_RECV_TIMEOUT\<rparr>"
  using all_samples_failed_is_recv_timeout [of 3 init_world "''ntp.example''" pf_unreachable]
  by (simp add: pf_unreachable_def dns_down_result MAX_SAMPLES_def)

text \<open>
  Claim C6. For at most \<open>MAX_SAMPLES\<close> samples of which at least one succeeds, the
  attempt returns the unweighted arithmetic means of the corrected times and of the
  delays of the successful samples (failed samples left out), with error
  \<open>NTP_SUCCESS\<close>, and its last line reports the number of successes out of the number
  of samples. On the results \<open>(100.0, 0.01)\<close>, \<open>(100.2, 0.03)\<close> failed, \<open>(100.1, 0.02)\<close>
  the loop body and the code after the loop give \<open>100.05\<close> and \<open>0.015\<close>, 2 of 3.
\<close>

theorem aggregate_is_mean:
  assumes "samples \<le> MAX_SAMPLES"
    and "successful (sample_results pf h (exchanges w) (nat samples)) \<noteq> []"
  shows "(let ok = successful (sample_results pf h (exchanges w) (nat samples));
              mean_time = sum_list (map corrected_time ok) / real (length ok);
              mean_delay = sum_list (map delay ok) / real (length ok)
          in fst (sync_with_server_multi_sample pf h samples w)
               = \<lparr>corrected_time = mean_time, delay = mean_delay, error = NTP_SUCCESS\<rparr>
           \<and> last (trace (snd (sync_with_server_multi_sample pf h samples w)))
               = Print (MsgAverage (mean_delay * 1000) (int (length ok)) samples))
     \<and> finish_samples 3
          (fst (record_sample 3 2 \<lparr>corrected_time = 1001 / 10, delay = 2 / 100, error = NTP_SUCCESS\<rparr>
            (fst (record_sample 3 1 \<lparr>corrected_time = 1002 / 10, delay = 3 / 100, error = NTP_ERR_RECV_TIMEOUT\<rparr>
              (fst (record_sample 3 0 \<lparr>corrected_time = 100, delay = 1 / 100, error = NTP_SUCCESS\<rparr>
                 init_sample_state)))))) w0
        = (\<lparr>corrected_time = 10005 / 100, delay = 15 / 1000, error = NTP_SUCCESS\<rparr>,
           emit (Print (MsgAverage 15 2 3)) w0)"
proof -
  have ex: "finish_samples 3
          (fst (record_sample 3 2 \<lparr>corrected_time = 1001 / 10, delay = 2 / 100, error = NTP_SUCCESS\<rparr>
            (fst (record_sample 3 1 \<lparr>corrected_time = 1002 / 10, delay = 3 / 100, error = NTP_ERR_RECV_TIMEOUT\<rparr>
              (fst (record_sample 3 0 \<lparr>corrected_time = 100, delay = 1 / 100, error = NTP_SUCCESS\<rparr>
                 init_sample_state)))))) w0
        = (\<lparr>corrected_time = 10005 / 100, delay = 15 / 1000, error = NTP_SUCCESS\<rparr>,
           emit (Print (MsgAverage 15 2 3)) w0)"
    by (simp add: finish_samples_def record_sample_def init_sample_state_def add_sample_def
        MAX_SAMPLES_def Let_def numeral_3_eq_3 numeral_2_eq_2 eval_nat_numeral)
  show ?thesis
    using assms ex by (simp add: Let_def sync_result sync_last_print)
qed

lemma flaky_sample_results:
  "sample_results pf_flaky h 0 3 =
     [\<lparr>corrected_time = 2003 / 2, delay = 1, error = NTP_SUCCESS\<rparr>,
      \<lparr>corrected_time = 0, delay = 0, error = NTP_ERR_DNS_FAILED\<rparr>,
      \<lparr>corrected_time = 2007 / 2, delay = 5, error = NTP_SUCCESS\<rparr>]"
  by (simp add: numeral_3_eq_3 sample_results_Suc pf_flaky_def flaky_io_def good_io_result_at
      dns_down_result)

text \<open>Three samples, the second one failing: the means of the first and the third.\<close>

theorem aggregate_is_mean_witness:
  "fst (sync_with_server_multi_sample pf_flaky ''ntp.example'' 3 init_world)
     = \<lparr>corrected_time = 2005 / 2, delay = 3, error = NTP_SUCCESS\<rparr>
   \<and> last (trace (snd (sync_with_server_multi_sample pf_flaky ''ntp.example'' 3 init_world)))
     = Print (MsgAverage 3000 2 3)"
  using aggregate_is_mean [of 3 pf_flaky "''ntp.example''" init_world init_world]
  by (simp add: MAX_SAMPLES_def init_world_def flaky_sample_results successful_def Let_def)

section \<open>Properties of the fallback chain\<close>

text \<open>The argument loop leaves a sample count between 1 and \<open>MAX_SAMPLES\<close>.\<close>

lemma main_args_samples:
  "1 \<le> samples \<Longrightarrow> samples \<le> MAX_SAMPLES \<Longrightarrow>
   fst (main_args pf prog args samples custom_server w) = Proceed s c \<Longrightarrow>
   1 \<le> s \<and> s \<le> MAX_SAMPLES"
proof (induction pf prog args samples custom_server w rule: main_args.induct)
  case (1 pf prog samples custom_server w)
  then show ?case
    by simp
next
  case (2 pf prog a rest samples custom_server w)
  show ?case
  proof (cases "a = ''-h'' \<or> a = ''--help''")
    case True
    then show ?thesis
      using "2.prems"(3) by (simp del: list.inject)
  next
    case no_help: False
    show ?thesis
    proof (cases "a = ''-s''")
      case True
      show ?thesis
      proof (cases rest)
        case Nil
        then show ?thesis
          using "2.prems"(3) no_help True by simp
      next
        case (Cons n rest')
        show ?thesis
        proof (cases "atoi pf n < 1 \<or> atoi pf n > MAX_SAMPLES")
          case True
          then show ?thesis
            using "2.prems"(3) no_help \<open>a = ''-s''\<close> Cons by (simp add: Let_def)
        next
          case False
          then show ?thesis
            using "2.IH"(1) [OF no_help \<open>a = ''-s''\<close> Cons refl False] "2.prems"(3) no_help \<open>a = ''-s''\<close> Cons
            by (simp add: Let_def)
        qed
      qed
    next
      case opt: False
      show ?thesis
      proof (cases "case a of [] \<Rightarrow> True | c # _ \<Rightarrow> c \<noteq> CHR ''-''")
        case True
        then show ?thesis
          using "2.IH"(2) [OF no_help opt True] "2.prems" no_help opt by (simp del: list.inject)
      next
        case False
        then show ?thesis
          using "2.IH"(3) [OF no_help opt False] "2.prems" no_help opt by (simp del: list.inject)
      qed
    qed
  qed
qed

lemma main_proceeds:
  assumes "main_args pf (case argv of [] \<Rightarrow> [] | prog # _ \<Rightarrow> prog) (tl argv) 1 None w
             = (Proceed s c, w')"
  shows "main pf argv w = main_sync pf s c w' \<and> 1 \<le> s \<and> s \<le> MAX_SAMPLES"
  using main_args_samples [of 1 pf "case argv of [] \<Rightarrow> [] | prog # _ \<Rightarrow> prog" "tl argv" None w s c]
    assms
  by (simp add: main_def MAX_SAMPLES_def)

text \<open>The whole program on a host name with a slash: exit code 1, one line printed.\<close>

lemma main_invalid_hostname_example:
  "main pf_unreachable [''ntp_sync'', ''time/example''] init_world
     = (1, \<lparr>trace = [Print (MsgInvalidHostname ''time/example'')], exchanges = 0, clock_calls = 0\<rparr>)"
  by (simp add: main_def main_sync_def init_networking_def validate_hostname_iff
      spec_hostname_charset_def emit_def init_world_def)

text \<open>
  The clock setter: without root it returns \<open>NTP_ERR_PERMISSION_DENIED\<close> after
  \<open>getuid\<close>, and that is the only way to this error.
\<close>

lemma set_system_time_unprivileged:
  "getuid pf \<noteq> 0 \<Longrightarrow>
   set_system_time_platform pf t w = (NTP_ERR_PERMISSION_DENIED, emit Getuid w)"
  by (simp add: set_system_time_platform_def Let_def)

lemma permission_denied_iff:
  "fst (set_system_time_platform pf t w) = NTP_ERR_PERMISSION_DENIED \<longleftrightarrow> getuid pf \<noteq> 0"
  by (simp add: set_system_time_platform_def Let_def)

lemma set_system_time_traced:
  "count_list (trace (snd (set_system_time_platform pf t w))) Getuid = Suc (count_list (trace w) Getuid)"
  by (simp add: set_system_time_platform_def Let_def emit_def)

subsection \<open>Every server fails\<close>

lemma stage2_loop_all_fail:
  assumes "samples \<le> MAX_SAMPLES"
    and "\<forall>h\<in>set servers. \<forall>k. error (fst (query_ntp_server h (exchange pf h k))) \<noteq> NTP_SUCCESS"
  shows "fst (stage2_loop pf servers samples w) = False
     \<and> filter clock_event (trace (snd (stage2_loop pf servers samples w))) = filter clock_event (trace w)"
  using assms(2)
proof (induction servers arbitrary: w)
  case Nil
  then show ?case
    by simp
next
  case (Cons server servers)
  have fail: "error (fst (sync_with_server_multi_sample pf server samples w)) \<noteq> NTP_SUCCESS"
    using Cons.prems assms(1) by (simp add: sync_result successful_empty_iff)
  show ?case
    using Cons.IH [of "snd (sync_with_server_multi_sample pf server samples w)"] Cons.prems fail
    by (simp add: case_prod_beta sync_world)
qed

lemma stage1_all_fail:
  assumes "samples \<le> MAX_SAMPLES"
    and "\<forall>k. error (fst (query_ntp_server h (exchange pf h k))) \<noteq> NTP_SUCCESS"
  shows "fst (stage1 pf h samples w) = False
     \<and> filter clock_event (trace (snd (stage1 pf h samples w))) = filter clock_event (trace w)"
proof -
  have fail: "error (fst (sync_with_server_multi_sample pf h samples (emit (Print MsgStage1) w)))
      \<noteq> NTP_SUCCESS"
    using assms by (simp add: sync_result successful_empty_iff)
  show ?thesis
    using fail by (simp add: stage1_def Let_def case_prod_beta sync_world emit_def clock_event_def)
qed

lemma main_stage2_all_fail:
  assumes "samples \<le> MAX_SAMPLES"
    and "\<forall>h\<in>set INTERNAL_NTP_SERVERS. \<forall>k.
           error (fst (query_ntp_server h (exchange pf h k))) \<noteq> NTP_SUCCESS"
  shows "fst (main_stage2 pf samples False w) = 1
     \<and> filter clock_event (trace (snd (main_stage2 pf samples False w))) = filter clock_event (trace w)"
  using stage2_loop_all_fail [OF assms, of "emit (Print MsgStage2) w"]
  by (simp add: main_stage2_def Let_def case_prod_beta emit_def clock_event_def)

text \<open>
  Claim C8. When every exchange with every configured server (the user's host, if
  any, and each built-in server) fails, so that no server yields a successful
  aggregate, the program exits with code 1 and the trace gains no event of the clock
  setter: \<open>set_system_time_platform\<close> is never called.
\<close>

theorem total_failure_exits_nonzero:
  assumes "samples \<le> MAX_SAMPLES"
    and "\<forall>h\<in>set (configured_servers custom_server). \<forall>k.
           error (fst (query_ntp_server h (exchange pf h k))) \<noteq> NTP_SUCCESS"
  shows "fst (main_sync pf samples custom_server w) = 1
     \<and> filter clock_event (trace (snd (main_sync pf samples custom_server w)))
         = filter clock_event (trace w)"
proof (cases custom_server)
  case None
  then show ?thesis
    using main_stage2_all_fail [of samples pf w] assms
    by (simp add: main_sync_def configured_servers_def)
next
  case (Some h)
  show ?thesis
  proof (cases "validate_hostname (Some h)")
    case False
    then show ?thesis
      using Some by (simp add: main_sync_def emit_def clock_event_def)
  next
    case True
    have s1: "fst (stage1 pf h samples w) = False"
      "filter clock_event (trace (snd (stage1 pf h samples w))) = filter clock_event (trace w)"
      using stage1_all_fail [of samples h pf w] assms Some
      by (simp_all add: configured_servers_def)
    show ?thesis
      using main_stage2_all_fail [of samples pf "snd (stage1 pf h samples w)"] assms Some True s1
      by (simp add: main_sync_def init_networking_def case_prod_beta configured_servers_def)
  qed
qed

theorem total_failure_exits_nonzero_witness:
  "fst (main_sync pf_unreachable 2 (Some ''ntp.example'') init_world) = 1
   \<and> filter clock_event (trace (snd (main_sync pf_unreachable 2 (Some ''ntp.example'') init_world)))
       = []"
  using total_failure_exits_nonzero [of 2 "Some ''ntp.example''" pf_unreachable init_world]
  by (simp add: pf_unreachable_def dns_down_result MAX_SAMPLES_def init_world_def)

subsection \<open>The time cannot be applied\<close>

lemma stage2_loop_unprivileged:
  assumes "getuid pf \<noteq> 0"
  shows "fst (stage2_loop pf servers samples w) = False
     \<and> resolved_hosts (trace (snd (stage2_loop pf servers samples w)))
         = resolved_hosts (trace w) @ concat (map (replicate (nat samples)) servers)
     \<and> count_list (trace (snd (stage2_loop pf servers samples w)))
           (Print (MsgError NTP_ERR_PERMISSION_DENIED))
          + count_list (trace w) Getuid
         = count_list (trace w) (Print (MsgError NTP_ERR_PERMISSION_DENIED))
          + count_list (trace (snd (stage2_loop pf servers samples w))) Getuid"
proof (induction servers arbitrary: w)
  case Nil
  then show ?case
    by simp
next
  case (Cons server servers)
  let ?s = "sync_with_server_multi_sample pf server samples w"
  show ?case
  proof (cases "error (fst ?s) = NTP_SUCCESS")
    case True
    then show ?thesis
      using Cons.IH [of "emit (Print (MsgError NTP_ERR_PERMISSION_DENIED)) (emit Getuid (snd ?s))"]
      by (simp add: case_prod_beta set_system_time_unprivileged [OF assms] sync_world emit_def)
  next
    case False
    then show ?thesis
      using Cons.IH [of "snd ?s"] by (simp add: case_prod_beta sync_world)
  qed
qed

lemma stage1_unprivileged:
  assumes "getuid pf \<noteq> 0"
  shows "fst (stage1 pf h samples w) = False
     \<and> resolved_hosts (trace (snd (stage1 pf h samples w)))
         = resolved_hosts (trace w) @ replicate (nat samples) h
     \<and> count_list (trace (snd (stage1 pf h samples w))) (Print (MsgError NTP_ERR_PERMISSION_DENIED))
          + count_list (trace w) Getuid
         = count_list (trace w) (Print (MsgError NTP_ERR_PERMISSION_DENIED))
          + count_list (trace (snd (stage1 pf h samples w))) Getuid"
  by (simp add: stage1_def Let_def case_prod_beta set_system_time_unprivileged [OF assms]
      sync_world emit_def)

lemma main_stage2_unprivileged:
  assumes "getuid pf \<noteq> 0"
  shows "fst (main_stage2 pf samples False w) = 1
     \<and> resolved_hosts (trace (snd (main_stage2 pf samples False w)))
         = resolved_hosts (trace w) @ concat (map (replicate (nat samples)) INTERNAL_NTP_SERVERS)
     \<and> count_list (trace (snd (main_stage2 pf samples False w)))
           (Print (MsgError NTP_ERR_PERMISSION_DENIED))
          + count_list (trace w) Getuid
         = count_list (trace w) (Print (MsgError NTP_ERR_PERMISSION_DENIED))
          + count_list (trace (snd (main_stage2 pf samples False w))) Getuid"
  using stage2_loop_unprivileged [OF assms, of INTERNAL_NTP_SERVERS samples "emit (Print MsgStage2) w"]
  by (simp add: main_stage2_def Let_def case_prod_beta emit_def)

lemma sample_results_1:
  "sample_results pf h k (Suc 0) = [fst (query_ntp_server h (exchange pf h k))]"
  by (simp add: sample_results_def)

lemma valid_example_host: "validate_hostname (Some ''ntp.example'')"
  by (simp add: validate_hostname_iff spec_hostname_charset_def)

text \<open>
  Claim C1 as written fails. Run by user 1000 with the host \<open>ntp.example\<close> answering:
  the query of stage 1 succeeds, applying its time is refused and reported, and the
  program goes on to resolve each of the three built-in servers.
\<close>

theorem permission_denied_not_terminal:
  "error (fst (sync_with_server_multi_sample pf_unprivileged ''ntp.example'' 1
                 (emit (Print MsgStage1) init_world))) = NTP_SUCCESS
   \<and> Print (MsgError NTP_ERR_PERMISSION_DENIED)
        \<in> set (trace (snd (stage1 pf_unprivileged ''ntp.example'' 1 init_world)))
   \<and> resolved_hosts (trace (snd (main_sync pf_unprivileged 1 (Some ''ntp.example'') init_world)))
        = [''ntp.example'', ''ntp.aliyun.com'', ''time.cloudflare.com'', ''pool.ntp.org'']"
proof -
  have u: "getuid pf_unprivileged \<noteq> 0"
    by (simp add: pf_unprivileged_def)
  have ok: "error (fst (sync_with_server_multi_sample pf_unprivileged ''ntp.example'' 1
                 (emit (Print MsgStage1) init_world))) = NTP_SUCCESS"
    by (simp add: sync_result MAX_SAMPLES_def sample_results_1 successful_def pf_unprivileged_def
        good_io_result)
  have denied: "Print (MsgError NTP_ERR_PERMISSION_DENIED)
        \<in> set (trace (snd (stage1 pf_unprivileged ''ntp.example'' 1 init_world)))"
    using ok
    by (simp add: stage1_def Let_def case_prod_beta set_system_time_unprivileged [OF u] emit_def)
  have hosts: "resolved_hosts (trace (snd (main_sync pf_unprivileged 1 (Some ''ntp.example'') init_world)))
        = [''ntp.example'', ''ntp.aliyun.com'', ''time.cloudflare.com'', ''pool.ntp.org'']"
    using valid_example_host stage1_unprivileged [OF u, of "''ntp.example''" 1 init_world]
      main_stage2_unprivileged [OF u, of 1 "snd (stage1 pf_unprivileged ''ntp.example'' 1 init_world)"]
    by (simp add: main_sync_def init_networking_def init_world_def case_prod_beta
        INTERNAL_NTP_SERVERS_def)
  show ?thesis
    using ok denied hosts by simp
qed

text \<open>
  Claim C1, amended. In a run that cannot apply the time (the process is not root,
  so every call of the clock setter returns \<open>NTP_ERR_PERMISSION_DENIED\<close>), each
  refusal is reported on its own line and the program goes on to the next server:
  every configured server is queried, \<open>samples\<close> times each and in order (the user's
  host, then the whole built-in pool), and the run ends with exit code 1 after the
  last pool entry.
\<close>

theorem permission_denied_continues:
  assumes "getuid pf \<noteq> 0"
    and "custom_server = None \<or> validate_hostname custom_server"
  shows "fst (main_sync pf samples custom_server init_world) = 1
     \<and> resolved_hosts (trace (snd (main_sync pf samples custom_server init_world)))
         = concat (map (replicate (nat samples)) (configured_servers custom_server))
     \<and> count_list (trace (snd (main_sync pf samples custom_server init_world)))
           (Print (MsgError NTP_ERR_PERMISSION_DENIED))
         = count_list (trace (snd (main_sync pf samples custom_server init_world))) Getuid"
proof (cases custom_server)
  case None
  then show ?thesis
    using main_stage2_unprivileged [OF assms(1), of samples init_world]
    by (simp add: main_sync_def init_networking_def configured_servers_def init_world_def)
next
  case (Some h)
  then show ?thesis
    using assms(2) stage1_unprivileged [OF assms(1), of h samples init_world]
      main_stage2_unprivileged [OF assms(1), of samples "snd (stage1 pf h samples init_world)"]
    by (simp add: main_sync_def init_networking_def configured_servers_def init_world_def
        case_prod_beta)
qed

theorem permission_denied_continues_witness:
  "getuid pf_unprivileged \<noteq> 0
   \<and> fst (main_sync pf_unprivileged 2 None init_world) = 1
   \<and> resolved_hosts (trace (snd (main_sync pf_unprivileged 2 None init_world)))
        = [''ntp.aliyun.com'', ''ntp.aliyun.com'', ''time.cloudflare.com'', ''time.cloudflare.com'',
           ''pool.ntp.org'', ''pool.ntp.org'']
   \<and> count_list (trace (snd (main_sync pf_unprivileged 2 None init_world)))
           (Print (MsgError NTP_ERR_PERMISSION_DENIED))
        = count_list (trace (snd (main_sync pf_unprivileged 2 None init_world))) Getuid"
  using permission_denied_continues [of pf_unprivileged None 2]
  by (simp add: pf_unprivileged_def configured_servers_def INTERNAL_NTP_SERVERS_def
      numeral_2_eq_2)

end
